theory Spec2Isabelle
  imports Complex_Main
begin

section \<open>The document store (\<open>database.py\<close>, \<open>repositories.py\<close>)\<close>

text \<open>
  The table \<open>documents\<close> of \<open>database.py\<close>, one record per row. The column \<open>status\<close> carries
  the constraint \<open>CHECK (status IN ('pending', 'processing', 'completed', 'failed'))\<close>, the
  four values of \<open>schemas.DocumentStatus\<close>. The columns \<open>id\<close> and \<open>type\<close> are called
  \<open>doc_id\<close> and \<open>doc_type\<close> here.

  Timestamps are the strings of \<open>datetime.utcnow().isoformat()\<close>, which SQLite compares as
  text; for these strings the text order is the order of the instants, so a timestamp is
  modelled as the number of seconds since the epoch, a rational.
\<close>

datatype DocumentStatus = PENDING | PROCESSING | COMPLETED | FAILED

type_synonym timestamp = rat

record document =
  doc_id :: string
  doc_type :: string
  title :: string
  content :: string
  source_url :: "string option"
  status :: DocumentStatus
  processing_error :: "string option"
  retry_count :: int
  max_retries :: int
  next_attempt_at :: "timestamp option"
  last_error :: "string option"
  created_at :: timestamp
  updated_at :: timestamp

text \<open>
  The three tables. \<open>document_tags\<close> holds pairs (document_id, tag), \<open>document_links\<close>
  pairs (source_doc_id, target_doc_id).
\<close>

record database =
  documents :: "document list"
  document_tags :: "(string \<times> string) list"
  document_links :: "(string \<times> string) list"

text \<open>
  The world a task runs in: the database, the number of readings of the clock taken so far,
  and the records written to the logger. The clock itself, \<open>datetime.utcnow\<close>, is a
  parameter \<open>clock\<close> of every operation that reads it: its \<open>k\<close>-th reading is \<open>clock k\<close>.
\<close>

datatype log_level = INFO | ERROR

datatype log_message =
  Starting_background_processing string
  | Updated_status_to_processing string
  | Running_indexing_pipeline string
  | Successfully_indexed nat string
  | Completed_processing string
  | Error_processing string string
  | Starting_retry_cycle
  | No_failed_documents_found
  | Found_documents_to_retry nat
  | Requeuing_document string int
  | Completed_retry_cycle nat

record world =
  db :: database
  ticks :: nat
  logged :: "(log_level \<times> log_message) list"

definition logger :: "log_level \<Rightarrow> log_message \<Rightarrow> world \<Rightarrow> world" where
  "logger lvl msg w = w\<lparr>logged := logged w @ [(lvl, msg)]\<rparr>"

definition utcnow :: "(nat \<Rightarrow> timestamp) \<Rightarrow> world \<Rightarrow> timestamp \<times> world" where
  "utcnow clock w = (clock (ticks w), w\<lparr>ticks := Suc (ticks w)\<rparr>)"

subsection \<open>Reading a document\<close>

text \<open>\<open>SELECT * FROM documents WHERE id = ?\<close> followed by \<open>fetchone\<close>: the first match.\<close>

definition select_document :: "database \<Rightarrow> string \<Rightarrow> document option" where
  "select_document d i = find (\<lambda>r. doc_id r = i) (documents d)"

record fetched_document =
  row :: document
  tags :: "string list"
  linked_document_ids :: "string list"

text \<open>
  \<open>get_by_id\<close>: the row, its tags, and the \<open>UNION\<close> (duplicates removed) of the targets of
  its outbound links and the sources of its inbound links.
\<close>

definition get_by_id :: "world \<Rightarrow> string \<Rightarrow> fetched_document option" where
  "get_by_id w i =
     (case select_document (db w) i of
        None \<Rightarrow> None
      | Some r \<Rightarrow>
          Some \<lparr>row = r,
                tags = map snd (filter (\<lambda>(d, t). d = i) (document_tags (db w))),
                linked_document_ids =
                  remdups (map snd (filter (\<lambda>(s, t). s = i) (document_links (db w))) @
                           map fst (filter (\<lambda>(s, t). t = i) (document_links (db w))))\<rparr>)"

subsection \<open>Backoff and the status update\<close>

text \<open>
  \<open>delay_seconds = min(60 * (2 ** retry_count), 600)\<close>. For a non-negative \<open>retry_count\<close>
  Python computes the power in integers; for a negative one \<open>2 ** retry_count\<close> is the float
  \<open>1 / 2 ** (-retry_count)\<close>, given here as the exact rational.
\<close>

definition delay_seconds :: "int \<Rightarrow> rat" where
  "delay_seconds rc =
     min (60 * (if 0 \<le> rc then 2 ^ nat rc else 1 / 2 ^ nat (- rc))) 600"

text \<open>The truth value Python gives to an \<open>Optional[str]\<close>: \<open>None\<close> and \<open>""\<close> are false.\<close>

definition is_truthy :: "string option \<Rightarrow> bool" where
  "is_truthy e = (case e of None \<Rightarrow> False | Some s \<Rightarrow> s \<noteq> [])"

text \<open>\<open>UPDATE documents SET ... WHERE id = ?\<close>: every row with that id is rewritten.\<close>

definition update_where_id ::
  "string \<Rightarrow> (document \<Rightarrow> document) \<Rightarrow> database \<Rightarrow> database" where
  "update_where_id i f d =
     d\<lparr>documents := map (\<lambda>r. if doc_id r = i then f r else r) (documents d)\<rparr>"

text \<open>
  \<open>update_status\<close> of \<open>DocumentRepository\<close> (\<open>DocumentRepositoryAsync\<close> runs the same
  statements). With an error message it reads the clock a second time for
  \<open>next_attempt\<close>, and reads \<open>retry_count\<close> (0 when there is no such row) before the
  \<open>UPDATE\<close> that increments it.
\<close>

definition update_status ::
  "(nat \<Rightarrow> timestamp) \<Rightarrow> world \<Rightarrow> string \<Rightarrow> DocumentStatus \<Rightarrow> string option \<Rightarrow> world" where
  "update_status clock w i st error =
     (let (current_time, w1) = utcnow clock w in
      if is_truthy error then
        let rc = (case select_document (db w1) i of Some r \<Rightarrow> retry_count r | None \<Rightarrow> 0);
            (now, w2) = utcnow clock w1;
            next_attempt = now + delay_seconds rc
        in w2\<lparr>db := update_where_id i
                 (\<lambda>r. r\<lparr>status := st, processing_error := error, last_error := error,
                         updated_at := current_time, retry_count := retry_count r + 1,
                         next_attempt_at := Some next_attempt\<rparr>) (db w2)\<rparr>
      else
        w1\<lparr>db := update_where_id i
                 (\<lambda>r. r\<lparr>status := st, updated_at := current_time\<rparr>) (db w1)\<rparr>)"

text \<open>
  \<open>get_failed_documents_for_retry\<close>: the \<open>WHERE\<close> clause, then \<open>ORDER BY created_at ASC\<close>
  and \<open>LIMIT 50\<close>. SQL leaves the order of rows with equal \<open>created_at\<close> open; the stable
  sort keeps them in table order, and no property below depends on that choice.
\<close>

definition retryable :: "int \<Rightarrow> timestamp \<Rightarrow> document \<Rightarrow> bool" where
  "retryable mr now r =
     (status r = FAILED \<and> retry_count r < mr \<and>
      (case next_attempt_at r of None \<Rightarrow> True | Some t \<Rightarrow> t \<le> now))"

definition get_failed_documents_for_retry ::
  "(nat \<Rightarrow> timestamp) \<Rightarrow> world \<Rightarrow> int \<Rightarrow> document list \<times> world" where
  "get_failed_documents_for_retry clock w mr =
     (let (current_time, w1) = utcnow clock w
      in (take 50 (sort_key created_at (filter (retryable mr current_time) (documents (db w1)))),
          w1))"

section \<open>Background tasks (\<open>tasks.py\<close>)\<close>

text \<open>
  The document handed to the indexing pipeline, and the pipeline itself, which is outside
  the repository's own code and therefore a parameter: \<open>get_indexing_pipeline()\<close> either
  raises (\<open>Inl\<close> of the exception's text) or returns a pipeline, whose \<open>run\<close> either raises or
  returns the writer's count of written chunks, if it reports one.
\<close>

record HaystackDocument =
  hd_content :: string
  meta_doc_id :: string
  meta_title :: string
  meta_type :: string
  meta_source_url :: "string option"
  meta_tags :: "string list"
  meta_created_at :: timestamp

type_synonym indexing_pipeline = "HaystackDocument \<Rightarrow> string + nat option"

text \<open>"Convert to Haystack Document format": the content and six entries of metadata.\<close>

definition haystack_document :: "fetched_document \<Rightarrow> HaystackDocument" where
  "haystack_document doc_data =
     \<lparr>hd_content = content (row doc_data),
      meta_doc_id = doc_id (row doc_data),
      meta_title = title (row doc_data),
      meta_type = doc_type (row doc_data),
      meta_source_url = source_url (row doc_data),
      meta_tags = tags doc_data,
      meta_created_at = created_at (row doc_data)\<rparr>"

text \<open>
  The \<open>except Exception\<close> branch of \<open>process_document_background\<close>: log at error level,
  cut the message to 500 characters, and record the failure. The branches for the
  synchronous and the asynchronous repository run the same steps; opening and closing the
  connection is not modelled, and the operations of the store are taken not to raise.
\<close>

definition on_exception :: "(nat \<Rightarrow> timestamp) \<Rightarrow> world \<Rightarrow> string \<Rightarrow> string \<Rightarrow> world" where
  "on_exception clock w i error_msg =
     (let w1 = logger ERROR (Error_processing i error_msg) w;
          truncated_error = (if length error_msg > 500 then take 500 error_msg else error_msg)
      in update_status clock w1 i FAILED (Some truncated_error))"

definition process_document_background ::
  "(nat \<Rightarrow> timestamp) \<Rightarrow> string + indexing_pipeline \<Rightarrow> world \<Rightarrow> string \<Rightarrow> world" where
  "process_document_background clock get_indexing_pipeline w i =
     (let w1 = logger INFO (Starting_background_processing i) w;
          w2 = update_status clock w1 i PROCESSING None;
          w3 = logger INFO (Updated_status_to_processing i) w2
      in case get_by_id w3 i of
           None \<Rightarrow> on_exception clock w3 i (''Document '' @ i @ '' not found in database'')
         | Some doc_data \<Rightarrow>
             (let haystack_doc = haystack_document doc_data
              in case get_indexing_pipeline of
                   Inl e \<Rightarrow> on_exception clock w3 i e
                 | Inr indexing_pipeline \<Rightarrow>
                     (let w4 = logger INFO (Running_indexing_pipeline i) w3
                      in case indexing_pipeline haystack_doc of
                           Inl e \<Rightarrow> on_exception clock w4 i e
                         | Inr result \<Rightarrow>
                             (let w5 = (case result of
                                          Some written_docs \<Rightarrow>
                                            logger INFO (Successfully_indexed written_docs i) w4
                                        | None \<Rightarrow> w4);
                                  w6 = update_status clock w5 i COMPLETED None
                              in logger INFO (Completed_processing i) w6))))"

text \<open>
  The retry sweep. \<open>retry_document\<close> is the body of the loop over \<open>failed_docs\<close>, the rows
  as they were when the query ran; \<open>retry_failed_documents_task\<close> calls the query with its
  default \<open>max_retries = 3\<close>.
\<close>

definition retry_document ::
  "(nat \<Rightarrow> timestamp) \<Rightarrow> string + indexing_pipeline \<Rightarrow> document \<Rightarrow> world \<Rightarrow> world" where
  "retry_document clock get_indexing_pipeline doc w =
     (let i = doc_id doc;
          w1 = logger INFO (Requeuing_document i (retry_count doc + 1)) w;
          w2 = update_status clock w1 i PENDING None
      in process_document_background clock get_indexing_pipeline w2 i)"

fun retry_loop ::
  "(nat \<Rightarrow> timestamp) \<Rightarrow> string + indexing_pipeline \<Rightarrow> document list \<Rightarrow> world \<Rightarrow> world" where
  "retry_loop clock get_indexing_pipeline [] w = w"
| "retry_loop clock get_indexing_pipeline (doc # failed_docs) w =
     retry_loop clock get_indexing_pipeline failed_docs
       (retry_document clock get_indexing_pipeline doc w)"

definition retry_failed_documents_task ::
  "(nat \<Rightarrow> timestamp) \<Rightarrow> string + indexing_pipeline \<Rightarrow> world \<Rightarrow> world" where
  "retry_failed_documents_task clock get_indexing_pipeline w =
     (let w0 = logger INFO Starting_retry_cycle w;
          (failed_docs, w1) = get_failed_documents_for_retry clock w0 3
      in if failed_docs = [] then logger INFO No_failed_documents_found w1
         else
           (let w2 = logger INFO (Found_documents_to_retry (length failed_docs)) w1;
                w3 = retry_loop clock get_indexing_pipeline failed_docs w2
            in logger INFO (Completed_retry_cycle (length failed_docs)) w3))"

text \<open>
  The stages of the two tasks, for stating what each one writes.
  \<open>claim_processing\<close> is \<open>process_document_background\<close> up to its fetch: the status is set
  to \<open>processing\<close>. \<open>fetch_and_index\<close> is the rest of it, from the fetch on.
  \<open>reset_to_pending\<close> is \<open>retry_document\<close> up to its call of
  \<open>process_document_background\<close>.
\<close>

definition claim_processing :: "(nat \<Rightarrow> timestamp) \<Rightarrow> world \<Rightarrow> string \<Rightarrow> world" where
  "claim_processing clock w i =
     (let w1 = logger INFO (Starting_background_processing i) w;
          w2 = update_status clock w1 i PROCESSING None
      in logger INFO (Updated_status_to_processing i) w2)"

definition fetch_and_index ::
  "(nat \<Rightarrow> timestamp) \<Rightarrow> string + indexing_pipeline \<Rightarrow> world \<Rightarrow> string \<Rightarrow> world" where
  "fetch_and_index clock get_indexing_pipeline w3 i =
     (case get_by_id w3 i of
        None \<Rightarrow> on_exception clock w3 i (''Document '' @ i @ '' not found in database'')
      | Some doc_data \<Rightarrow>
          (let haystack_doc = haystack_document doc_data
           in case get_indexing_pipeline of
                Inl e \<Rightarrow> on_exception clock w3 i e
              | Inr indexing_pipeline \<Rightarrow>
                  (let w4 = logger INFO (Running_indexing_pipeline i) w3
                   in case indexing_pipeline haystack_doc of
                        Inl e \<Rightarrow> on_exception clock w4 i e
                      | Inr result \<Rightarrow>
                          (let w5 = (case result of
                                       Some written_docs \<Rightarrow>
                                         logger INFO (Successfully_indexed written_docs i) w4
                                     | None \<Rightarrow> w4);
                               w6 = update_status clock w5 i COMPLETED None
                           in logger INFO (Completed_processing i) w6))))"

definition reset_to_pending :: "(nat \<Rightarrow> timestamp) \<Rightarrow> document \<Rightarrow> world \<Rightarrow> world" where
  "reset_to_pending clock doc w =
     (let i = doc_id doc;
          w1 = logger INFO (Requeuing_document i (retry_count doc + 1)) w
      in update_status clock w1 i PENDING None)"

section \<open>The retrieval filter (\<open>pipelines.py\<close>)\<close>

text \<open>
  A retrieved candidate: its content and its similarity score. Scores are Python floats
  (taken to be numbers, not NaN); the filter only compares them and subtracts once, so the
  score type is left open: any linear order with a subtraction and the two constants the
  code uses as defaults. Where a property needs more of the subtraction than that, it says
  so as a hypothesis.
  \<open>score = None\<close> stands for a document without a \<open>score\<close> attribute, for which
  \<open>getattr\<close> takes its default.
\<close>

record 's Document =
  d_content :: string
  score :: "'s option"

definition doc_score :: "('s::zero) Document \<Rightarrow> 's" where
  "doc_score doc = (case score doc of Some s \<Rightarrow> s | None \<Rightarrow> 0)"

text \<open>
  The loop of \<open>DocumentScoreFilter.run\<close> over \<open>documents\<close> (here \<open>docs\<close>), appending to
  \<open>filtered_docs\<close>. Its debug and info records are not modelled.
\<close>

fun filter_loop ::
  "('s::{zero,linorder}) \<Rightarrow> 's \<Rightarrow> 's Document list \<Rightarrow> 's Document list \<Rightarrow> 's Document list" where
  "filter_loop min_score relative_threshold [] filtered_docs = filtered_docs"
| "filter_loop min_score relative_threshold (doc # docs) filtered_docs =
     (if doc_score doc \<ge> min_score \<and> doc_score doc \<ge> relative_threshold
      then filter_loop min_score relative_threshold docs (filtered_docs @ [doc])
      else filter_loop min_score relative_threshold docs filtered_docs)"

definition DocumentScoreFilter_run ::
  "('s::{zero,one,minus,linorder}) \<Rightarrow> 's \<Rightarrow> 's Document list \<Rightarrow> 's Document list" where
  "DocumentScoreFilter_run min_score relative_margin docs =
     (case docs of
        [] \<Rightarrow> []
      | first # _ \<Rightarrow>
          (let best_score = (case score first of Some s \<Rightarrow> s | None \<Rightarrow> 1);
               relative_threshold = best_score - relative_margin
           in filter_loop min_score relative_threshold docs []))"

text \<open>\<open>DocumentLimiter.run\<close>; \<open>limit = None\<close> when the caller passes no limit.\<close>

definition DocumentLimiter_run :: "int \<Rightarrow> 'a list \<Rightarrow> int option \<Rightarrow> 'a list" where
  "DocumentLimiter_run default_limit docs limit =
     (let actual_limit = (case limit of Some l \<Rightarrow> l | None \<Rightarrow> default_limit);
          actual_limit = max 1 (min actual_limit 20)
      in if docs \<noteq> [] then take (nat actual_limit) docs else [])"

text \<open>
  The two components as \<open>build_querying_pipeline\<close> connects them: the output of the score
  filter is the input of the limiter.
\<close>

definition retrieval_filter ::
  "('s::{zero,one,minus,linorder}) \<Rightarrow> 's \<Rightarrow> int \<Rightarrow> int option \<Rightarrow> 's Document list \<Rightarrow>
   's Document list" where
  "retrieval_filter min_score relative_margin default_limit limit docs =
     DocumentLimiter_run default_limit
       (DocumentScoreFilter_run min_score relative_margin docs) limit"

text \<open>
  \<open>build_querying_pipeline\<close> constructs them as \<open>DocumentScoreFilter(min_score=0.25,
  relative_margin=0.25)\<close> and \<open>DocumentLimiter(default_limit=5)\<close>, the defaults of the two
  classes; \<open>limit\<close> is the \<open>context_limit\<close> of the chat request.
\<close>

definition querying_pipeline_filter ::
  "int option \<Rightarrow> rat Document list \<Rightarrow> rat Document list" where
  "querying_pipeline_filter limit docs = retrieval_filter (25 / 100) (25 / 100) 5 limit docs"

text \<open>Descending by score, as the retriever delivers its candidates.\<close>

definition sorted_by_score :: "('s::{zero,linorder}) Document list \<Rightarrow> bool" where
  "sorted_by_score docs = sorted_wrt (\<lambda>a b. doc_score b \<le> doc_score a) docs"

section \<open>Sample data\<close>

definition sample_document :: document where
  "sample_document =
     \<lparr>doc_id = ''d1'', doc_type = ''general_note'', title = ''Note'', content = ''Hello world'',
      source_url = None, status = FAILED, processing_error = Some ''timeout'',
      retry_count = 2, max_retries = 3, next_attempt_at = Some 100,
      last_error = Some ''timeout'', created_at = 10, updated_at = 40\<rparr>"

definition sample_exhausted :: document where
  "sample_exhausted = sample_document\<lparr>doc_id := ''d2'', retry_count := 3, created_at := 5\<rparr>"

definition sample_completed :: document where
  "sample_completed =
     sample_document\<lparr>doc_id := ''d3'', status := COMPLETED, processing_error := None,
       retry_count := 0, next_attempt_at := None, last_error := None, created_at := 1\<rparr>"

definition sample_waiting :: document where
  "sample_waiting =
     sample_document\<lparr>doc_id := ''d4'', retry_count := 1, next_attempt_at := Some 5000,
       created_at := 2\<rparr>"

definition sample_world :: world where
  "sample_world =
     \<lparr>db = \<lparr>documents = [sample_completed, sample_waiting, sample_exhausted, sample_document],
            document_tags = [(''d1'', ''greeting'')],
            document_links = []\<rparr>,
      ticks = 0, logged = []\<rparr>"

text \<open>A clock that advances one second per reading, starting at 1000.\<close>

definition sample_clock :: "nat \<Rightarrow> timestamp" where
  "sample_clock k = 1000 + of_nat k"

definition candidate :: "string \<Rightarrow> rat \<Rightarrow> rat Document" where
  "candidate c s = \<lparr>d_content = c, score = Some s\<rparr>"

section \<open>Properties of the store\<close>

lemma find_map_same_id:
  assumes "\<And>r. doc_id (f r) = doc_id r"
  shows "find (\<lambda>r. doc_id r = j) (map (\<lambda>r. if doc_id r = i then f r else r) rs) =
         map_option (\<lambda>r. if j = i then f r else r) (find (\<lambda>r. doc_id r = j) rs)"
  using assms by (induction rs) auto

lemma select_update_where_id:
  assumes "\<And>r. doc_id (f r) = doc_id r"
  shows "select_document (update_where_id i f d) j =
         map_option (\<lambda>r. if j = i then f r else r) (select_document d j)"
  using find_map_same_id [OF assms] by (simp add: select_document_def update_where_id_def)

lemma delay_seconds_nonneg:
  assumes "0 \<le> rc"
  shows "delay_seconds rc = of_int (min (60 * 2 ^ nat rc) 600)"
proof -
  have "(60 * 2 ^ nat rc :: rat) = of_int (60 * 2 ^ nat rc)" by simp
  moreover have "(600 :: rat) = of_int 600" by simp
  ultimately have "min (60 * 2 ^ nat rc) (600 :: rat) = of_int (min (60 * 2 ^ nat rc) 600)"
    by (simp only: of_int_min)
  with assms show ?thesis by (simp add: delay_seconds_def)
qed

lemma logger_fields [simp]:
  "db (logger l m w) = db w"
  "ticks (logger l m w) = ticks w"
  "logged (logger l m w) = logged w @ [(l, m)]"
  by (simp_all add: logger_def)

lemma get_by_id_logger [simp]: "get_by_id (logger l m w) i = get_by_id w i"
  by (simp add: get_by_id_def split: option.splits)

lemma update_status_plain:
  "\<not> is_truthy error \<Longrightarrow>
   update_status clock w i st error =
   w\<lparr>ticks := Suc (ticks w),
     db := update_where_id i (\<lambda>r. r\<lparr>status := st, updated_at := clock (ticks w)\<rparr>) (db w)\<rparr>"
  by (simp add: update_status_def utcnow_def)

lemma update_status_error:
  "is_truthy error \<Longrightarrow>
   update_status clock w i st error =
   w\<lparr>ticks := Suc (Suc (ticks w)),
     db := update_where_id i
       (\<lambda>r. r\<lparr>status := st, processing_error := error, last_error := error,
               updated_at := clock (ticks w), retry_count := retry_count r + 1,
               next_attempt_at :=
                 Some (clock (Suc (ticks w)) +
                       delay_seconds (case select_document (db w) i of
                                        Some r \<Rightarrow> retry_count r | None \<Rightarrow> 0))\<rparr>) (db w)\<rparr>"
  by (simp add: update_status_def utcnow_def Let_def)

lemma update_where_id_missing:
  "select_document d i = None \<Longrightarrow> update_where_id i f d = d"
  by (simp add: select_document_def update_where_id_def find_None_iff map_idI)

lemma update_where_id_tables [simp]:
  "document_tags (update_where_id i f d) = document_tags d"
  "document_links (update_where_id i f d) = document_links d"
  by (simp_all add: update_where_id_def)

lemma update_status_missing:
  "select_document (db w) i = None \<Longrightarrow> db (update_status clock w i st error) = db w"
  by (cases "is_truthy error")
     (simp_all add: update_status_plain update_status_error update_where_id_missing)

lemma update_status_None_fields:
  "ticks (update_status clock w i st None) = Suc (ticks w)"
  "logged (update_status clock w i st None) = logged w"
  "select_document (db (update_status clock w i st None)) j =
     map_option (\<lambda>r. if j = i then r\<lparr>status := st, updated_at := clock (ticks w)\<rparr> else r)
       (select_document (db w) j)"
  by (simp_all add: update_status_plain is_truthy_def select_update_where_id)

lemma get_by_id_update_status:
  "get_by_id (update_status clock w i st None) j =
     map_option
       (\<lambda>f. if j = i
            then f\<lparr>row := (row f)\<lparr>status := st, updated_at := clock (ticks w)\<rparr>\<rparr>
            else f)
       (get_by_id w j)"
  by (auto simp: get_by_id_def update_status_plain is_truthy_def select_update_where_id
      split: option.splits)

lemma get_by_id_Some:
  "get_by_id w i = Some f \<Longrightarrow> select_document (db w) i = Some (row f)"
  by (auto simp: get_by_id_def split: option.splits)

lemma get_by_id_None:
  "select_document (db w) i = None \<Longrightarrow> get_by_id w i = None"
  by (simp add: get_by_id_def)

lemma sorted_take_le_rest:
  assumes "sorted (map f xs)" and "x \<in> set (take n xs)" and "y \<in> set xs"
    and "y \<notin> set (take n xs)"
  shows "f x \<le> f y"
proof -
  from assms(3,4) have "y \<in> set (drop n xs)"
    by (metis Un_iff append_take_drop_id set_append)
  moreover have "sorted (map f (take n xs) @ map f (drop n xs))"
    using assms(1) by (metis append_take_drop_id map_append)
  ultimately show ?thesis using assms(2) by (auto simp: sorted_append)
qed

section \<open>Backoff\<close>

text \<open>
  Claim C5, as amended. The delay is 60 seconds for the first failure (\<open>retry_count = 0\<close>
  before the increment), 120 for the second, 240 for the third and 480 for the fourth; it
  equals the cap of 600 seconds from the fifth failure (\<open>retry_count = 4\<close>) onward.
\<close>

theorem backoff_schedule:
  "delay_seconds 0 = 60 \<and> delay_seconds 1 = 120 \<and> delay_seconds 2 = 240 \<and>
   delay_seconds 3 = 480 \<and> (4 \<le> rc \<longrightarrow> delay_seconds rc = 600)"
proof -
  have small: "delay_seconds 0 = 60" "delay_seconds 1 = 120" "delay_seconds 2 = 240"
    "delay_seconds 3 = 480"
    by (simp_all add: delay_seconds_def)
  have "delay_seconds rc = 600" if "4 \<le> rc"
  proof -
    have "4 \<le> nat rc" using that by simp
    then have "(2::int) ^ 4 \<le> 2 ^ nat rc" by (intro power_increasing) simp_all
    then have "min (60 * (2::int) ^ nat rc) 600 = 600" by simp
    moreover have "0 \<le> rc" using that by simp
    ultimately show ?thesis by (simp add: delay_seconds_nonneg)
  qed
  with small show ?thesis by simp
qed

theorem backoff_schedule_witness: "(4::int) \<le> 7 \<and> delay_seconds 7 = 600"
  using backoff_schedule [of 7] by simp

text \<open>
  Claim C5 as the specification states it puts the cap at the fourth failure. There
  \<open>60 * 2 ^ 3 = 480\<close> is still below 600 (the comment in \<open>update_status\<close> lists
  "1 min, 2 min, 4 min, 8 min").
\<close>

theorem fourth_failure_not_capped: "delay_seconds 3 = 480 \<and> delay_seconds 3 \<noteq> 600"
  by (simp add: delay_seconds_def)

text \<open>
  With a non-empty error message, for a stored document whose \<open>retry_count\<close> is
  non-negative, one \<open>UPDATE\<close> writes the status, both error columns, \<open>updated_at\<close>, the
  incremented \<open>retry_count\<close> and \<open>next_attempt_at = now + min(60 * 2 ^ retry_count, 600)\<close>,
  where \<open>retry_count\<close> is the value before the increment, \<open>now\<close> is the reading of the
  clock taken for it, and nothing random enters.
\<close>

lemma update_status_backoff:
  assumes "select_document (db w) i = Some r" and "0 \<le> retry_count r" and "error \<noteq> []"
  shows "select_document (db (update_status clock w i st (Some error))) i =
         Some (r\<lparr>status := st, processing_error := Some error, last_error := Some error,
                 updated_at := clock (ticks w),
                 retry_count := retry_count r + 1,
                 next_attempt_at :=
                   Some (clock (Suc (ticks w)) +
                         of_int (min (60 * 2 ^ nat (retry_count r)) 600))\<rparr>)"
  using assms
  by (simp add: update_status_def utcnow_def is_truthy_def select_update_where_id
      delay_seconds_nonneg)

lemma update_status_backoff_sample:
  "select_document
     (db (update_status sample_clock sample_world ''d1'' FAILED (Some ''boom''))) ''d1'' =
   Some (sample_document\<lparr>status := FAILED, processing_error := Some ''boom'',
           last_error := Some ''boom'', updated_at := 1000, retry_count := 3,
           next_attempt_at := Some 1241\<rparr>)"
  using update_status_backoff
    [of sample_world "''d1''" sample_document "''boom''" sample_clock FAILED]
  by (simp add: sample_world_def sample_document_def sample_exhausted_def
      sample_completed_def sample_waiting_def sample_clock_def select_document_def)

section \<open>The frame of a status update\<close>

text \<open>
  Claim C10. \<open>update_status\<close> called without an error message, for any identifier \<open>i\<close> and
  any status, changes nothing but \<open>status\<close> and \<open>updated_at\<close> of the record \<open>i\<close>: what
  \<open>get_by_id\<close> returns for any identifier \<open>j\<close> afterwards is what it returned before, with
  those two fields replaced when \<open>j = i\<close>; so \<open>retry_count\<close>, \<open>next_attempt_at\<close>,
  \<open>processing_error\<close>, \<open>last_error\<close>, content, title, type, \<open>source_url\<close>, \<open>created_at\<close>, the
  tags and the linked documents are as before. The tables of tags and links and the
  sequence of stored identifiers are untouched.
\<close>

theorem update_status_frame:
  "get_by_id (update_status clock w i st None) j =
     map_option
       (\<lambda>f. if j = i
            then f\<lparr>row := (row f)\<lparr>status := st, updated_at := clock (ticks w)\<rparr>\<rparr>
            else f)
       (get_by_id w j)
   \<and> document_tags (db (update_status clock w i st None)) = document_tags (db w)
   \<and> document_links (db (update_status clock w i st None)) = document_links (db w)
   \<and> map doc_id (documents (db (update_status clock w i st None))) =
       map doc_id (documents (db w))"
proof -
  have "map doc_id (documents (db (update_status clock w i st None))) =
        map doc_id (documents (db w))"
    by (simp add: update_status_plain is_truthy_def update_where_id_def comp_def)
  moreover have "document_tags (db (update_status clock w i st None)) = document_tags (db w)"
    and "document_links (db (update_status clock w i st None)) = document_links (db w)"
    by (simp_all add: update_status_plain is_truthy_def)
  ultimately show ?thesis
    using get_by_id_update_status [of clock w i st j] by simp
qed

section \<open>The retry query\<close>

text \<open>
  Claim C2. \<open>get_failed_documents_for_retry\<close> returns records of the table that have
  \<open>status = 'failed'\<close>, \<open>retry_count < max_retries\<close> and \<open>next_attempt_at\<close> null or not after
  the time of the query; it returns 50 of them, or all of them when there are at most 50;
  they come in ascending order of \<open>created_at\<close>, and a qualifying record that is left out
  was created no earlier than every record returned. So a record with
  \<open>retry_count \<ge> max_retries\<close> is never returned, whatever its status. The query leaves
  the database as it was.
\<close>

theorem find_retryable:
  assumes "res = fst (get_failed_documents_for_retry clock w mr)"
    and "now = clock (ticks w)"
    and "eligible =
          (\<lambda>r. status r = FAILED \<and> retry_count r < mr \<and>
               (next_attempt_at r = None \<or> (\<exists>t. next_attempt_at r = Some t \<and> t \<le> now)))"
  shows "set res \<subseteq> {r \<in> set (documents (db w)). eligible r}
       \<and> length res = min 50 (length (filter eligible (documents (db w))))
       \<and> (length (filter eligible (documents (db w))) \<le> 50 \<longrightarrow>
            set res = {r \<in> set (documents (db w)). eligible r})
       \<and> sorted (map created_at res)
       \<and> (\<forall>r \<in> set (documents (db w)). eligible r \<and> r \<notin> set res \<longrightarrow>
            (\<forall>x \<in> set res. created_at x \<le> created_at r))
       \<and> (\<forall>r. mr \<le> retry_count r \<longrightarrow> r \<notin> set res)
       \<and> db (snd (get_failed_documents_for_retry clock w mr)) = db w"
proof -
  have el: "eligible = retryable mr now"
    by (auto simp: assms(3) retryable_def fun_eq_iff split: option.splits)
  define srt where "srt = sort_key created_at (filter eligible (documents (db w)))"
  have res: "res = take 50 srt"
    by (simp add: assms(1,2) el srt_def get_failed_documents_for_retry_def utcnow_def)
  have set_srt: "set srt = {r \<in> set (documents (db w)). eligible r}"
    by (auto simp: srt_def)
  have len_srt: "length srt = length (filter eligible (documents (db w)))"
    by (simp add: srt_def)
  have sorted_srt: "sorted (map created_at srt)"
    by (simp add: srt_def)
  have 1: "set res \<subseteq> {r \<in> set (documents (db w)). eligible r}"
    using set_take_subset [of 50 srt] by (simp add: res set_srt)
  have 2: "length res = min 50 (length (filter eligible (documents (db w))))"
    by (simp add: res len_srt min.commute)
  have 3: "set res = {r \<in> set (documents (db w)). eligible r}"
    if "length (filter eligible (documents (db w))) \<le> 50"
    using that by (simp add: res len_srt [symmetric] set_srt)
  have 4: "sorted (map created_at res)"
    using sorted_srt by (simp add: res sorted_wrt_take take_map [symmetric] del: take_map)
  have 5: "\<forall>r \<in> set (documents (db w)). eligible r \<and> r \<notin> set res \<longrightarrow>
           (\<forall>x \<in> set res. created_at x \<le> created_at r)"
    using sorted_take_le_rest [OF sorted_srt] by (auto simp: res set_srt)
  have 6: "\<forall>r. mr \<le> retry_count r \<longrightarrow> r \<notin> set res"
    using set_take_subset [of 50 srt] by (auto simp: res set_srt assms(3))
  have 7: "db (snd (get_failed_documents_for_retry clock w mr)) = db w"
    by (simp add: get_failed_documents_for_retry_def utcnow_def)
  from 1 2 3 4 5 6 7 show ?thesis by blast
qed

theorem find_retryable_witness:
  "fst (get_failed_documents_for_retry sample_clock sample_world 3) = [sample_document]
   \<and> sample_exhausted \<in> set (documents (db sample_world))
   \<and> status sample_exhausted = FAILED
   \<and> sample_exhausted \<notin> set (fst (get_failed_documents_for_retry sample_clock sample_world 3))
   \<and> length (fst (get_failed_documents_for_retry sample_clock sample_world 3)) =
       min 50 (length (filter
         (\<lambda>r. status r = FAILED \<and> retry_count r < 3 \<and>
              (next_attempt_at r = None \<or> (\<exists>t. next_attempt_at r = Some t \<and> t \<le> 1000)))
         (documents (db sample_world))))"
  using find_retryable [OF refl refl refl, of sample_clock sample_world 3]
  by (simp add: sample_world_def sample_document_def sample_exhausted_def
      sample_completed_def sample_waiting_def sample_clock_def
      get_failed_documents_for_retry_def utcnow_def retryable_def)

section \<open>The retrieval filter\<close>

lemma filter_loop_eq:
  "filter_loop ms rt docs acc =
   acc @ filter (\<lambda>d. ms \<le> doc_score d \<and> rt \<le> doc_score d) docs"
  by (induction docs arbitrary: acc) simp_all

lemma score_filter_eq:
  "DocumentScoreFilter_run ms rm docs =
   (case docs of [] \<Rightarrow> []
    | first # _ \<Rightarrow>
        filter (\<lambda>d. ms \<le> doc_score d \<and>
                    (case score first of Some s \<Rightarrow> s | None \<Rightarrow> 1) - rm \<le> doc_score d) docs)"
  by (simp add: DocumentScoreFilter_run_def filter_loop_eq Let_def split: list.splits)

lemma limiter_take:
  "DocumentLimiter_run dl docs limit =
   take (nat (max 1 (min (case limit of Some l \<Rightarrow> l | None \<Rightarrow> dl) 20))) docs"
  by (simp add: DocumentLimiter_run_def Let_def)

lemma sorted_by_score_head:
  "sorted_by_score (first # rest) \<Longrightarrow> d \<in> set (first # rest) \<Longrightarrow>
   doc_score d \<le> doc_score first"
  by (auto simp: sorted_by_score_def)

text \<open>
  Claim C3. The score filter returns nothing for an empty input. For a non-empty input
  whose first candidate has score \<open>best\<close>, it returns, in their order, exactly the
  candidates whose score is at least \<open>min_score\<close> and at least \<open>best - relative_margin\<close>.
  With both thresholds 0.25, the candidates (A, 0.9), (B, 0.7), (C, 0.5), (D, 0.2) leave A
  and B, also through the pipeline as it is configured, with limit 5.
\<close>

theorem score_filter_keeps:
  "DocumentScoreFilter_run ms rm [] = []
   \<and> (score c = Some best \<longrightarrow>
        DocumentScoreFilter_run ms rm (c # cs) =
        filter (\<lambda>d. doc_score d \<ge> ms \<and> doc_score d \<ge> best - rm) (c # cs))
   \<and> DocumentScoreFilter_run (25 / 100) (25 / 100)
        [candidate ''A'' (9 / 10), candidate ''B'' (7 / 10), candidate ''C'' (5 / 10),
         candidate ''D'' (2 / 10)] =
      [candidate ''A'' (9 / 10), candidate ''B'' (7 / 10)]
   \<and> querying_pipeline_filter (Some 5)
        [candidate ''A'' (9 / 10), candidate ''B'' (7 / 10), candidate ''C'' (5 / 10),
         candidate ''D'' (2 / 10)] =
      [candidate ''A'' (9 / 10), candidate ''B'' (7 / 10)]"
  by (simp add: querying_pipeline_filter_def retrieval_filter_def limiter_take
      score_filter_eq candidate_def doc_score_def)

theorem score_filter_keeps_witness:
  "score (candidate ''X'' (8 / 10)) = Some (8 / 10)
   \<and> DocumentScoreFilter_run (1 / 4) (1 / 4)
        [candidate ''X'' (8 / 10), candidate ''Y'' (6 / 10), candidate ''Z'' (3 / 10)] =
      [candidate ''X'' (8 / 10), candidate ''Y'' (6 / 10)]"
  using score_filter_keeps [of "1 / 4" "1 / 4" "candidate ''X'' (8 / 10)" "8 / 10"
      "[candidate ''Y'' (6 / 10), candidate ''Z'' (3 / 10)]"]
  by (simp add: candidate_def doc_score_def)

text \<open>
  Claim C4. The limiter takes the requested limit, or \<open>default_limit\<close> when none is
  requested, moves it into the range from 1 to 20 (below 1 becomes 1, above 20 becomes 20)
  and returns that many leading elements of its input, in their order. A requested limit
  of 25 gives the first 20; with the pipeline's default of 5 and no request, the first 5.
  In the configured pipeline the limiter's input is the output of the score filter.
\<close>

theorem limiter_clamps:
  "DocumentLimiter_run default_limit docs limit =
     take (nat (let l = (case limit of Some l \<Rightarrow> l | None \<Rightarrow> default_limit)
                in if l < 1 then 1 else if 20 < l then 20 else l)) docs
   \<and> DocumentLimiter_run 5 docs (Some 25) = take 20 docs
   \<and> DocumentLimiter_run 5 docs None = take 5 docs
   \<and> querying_pipeline_filter (Some 25) candidates =
       take 20 (DocumentScoreFilter_run (25 / 100) (25 / 100) candidates)
   \<and> querying_pipeline_filter None candidates =
       take 5 (DocumentScoreFilter_run (25 / 100) (25 / 100) candidates)"
  by (simp add: querying_pipeline_filter_def retrieval_filter_def limiter_take
      DocumentLimiter_run_def Let_def max_def min_def split: option.splits)

text \<open>
  Claim C8. For candidates sorted descending by score, the retrieval filter (score filter,
  then limiter) applied to its own output, with the same thresholds and the same limit,
  returns that output unchanged.
\<close>

theorem retrieval_filter_idempotent:
  assumes "sorted_by_score docs"
  shows "retrieval_filter ms rm dl limit (retrieval_filter ms rm dl limit docs) =
         retrieval_filter ms rm dl limit docs"
proof (cases docs)
  case Nil
  then show ?thesis
    by (simp add: retrieval_filter_def score_filter_eq DocumentLimiter_run_def)
next
  case (Cons first rest)
  define best where "best = (case score first of Some s \<Rightarrow> s | None \<Rightarrow> 1)"
  define P where "P = (\<lambda>d. ms \<le> doc_score d \<and> best - rm \<le> doc_score d)"
  define n where "n = nat (max 1 (min (case limit of Some l \<Rightarrow> l | None \<Rightarrow> dl) 20))"
  have n: "0 < n" by (simp add: n_def)
  have out: "retrieval_filter ms rm dl limit docs = take n (filter P docs)"
    by (simp add: retrieval_filter_def limiter_take score_filter_eq Cons best_def P_def n_def)
  show ?thesis
  proof (cases "P first")
    case True
    then obtain m where "n = Suc m" using n by (cases n) auto
    with True have "take n (filter P docs) = first # take m (filter P rest)"
      by (simp add: Cons)
    moreover have "filter P (take n (filter P docs)) = take n (filter P docs)"
      by (rule filter_True) (auto dest: in_set_takeD)
    ultimately have "retrieval_filter ms rm dl limit (take n (filter P docs)) =
                     take n (take n (filter P docs))"
      by (simp add: retrieval_filter_def limiter_take score_filter_eq best_def P_def n_def)
    then show ?thesis by (simp add: out)
  next
    case False
    have "\<not> P d" if "d \<in> set docs" for d
      using False sorted_by_score_head [OF assms [unfolded Cons] that [unfolded Cons]]
      by (auto simp: P_def)
    then have "filter P docs = []" by (simp add: filter_empty_conv)
    then have "retrieval_filter ms rm dl limit docs = []" by (simp add: out)
    moreover have "retrieval_filter ms rm dl limit [] = []"
      by (simp add: retrieval_filter_def score_filter_eq DocumentLimiter_run_def)
    ultimately show ?thesis by simp
  qed
qed

theorem retrieval_filter_idempotent_witness:
  "sorted_by_score
     [candidate ''A'' (9 / 10), candidate ''B'' (7 / 10), candidate ''C'' (5 / 10)]
   \<and> retrieval_filter (1 / 4) (1 / 2) 5 (Some 2)
       [candidate ''A'' (9 / 10), candidate ''B'' (7 / 10), candidate ''C'' (5 / 10)] =
     [candidate ''A'' (9 / 10), candidate ''B'' (7 / 10)]
   \<and> retrieval_filter (1 / 4) (1 / 2) 5 (Some 2)
       [candidate ''A'' (9 / 10), candidate ''B'' (7 / 10)] =
     [candidate ''A'' (9 / 10), candidate ''B'' (7 / 10)]"
proof -
  have s: "sorted_by_score
     [candidate ''A'' (9 / 10), candidate ''B'' (7 / 10), candidate ''C'' (5 / 10)]"
    by (simp add: sorted_by_score_def candidate_def doc_score_def)
  have r: "retrieval_filter (1 / 4) (1 / 2) 5 (Some 2)
       [candidate ''A'' (9 / 10), candidate ''B'' (7 / 10), candidate ''C'' (5 / 10)] =
     [candidate ''A'' (9 / 10), candidate ''B'' (7 / 10)]"
    by (simp add: retrieval_filter_def score_filter_eq limiter_take candidate_def
        doc_score_def)
  from retrieval_filter_idempotent [OF s, of "1 / 4" "1 / 2" 5 "Some 2"] s r
  show ?thesis by simp
qed

text \<open>
  Claim C9. For a fixed candidate sequence, a larger \<open>relative_margin\<close> never leaves fewer
  survivors of the score filter, and a larger \<open>min_score\<close> never leaves more. The first
  half uses that subtracting more gives no more, which holds of the integers, rationals
  and reals and of floating-point subtraction, whose rounding is monotone.
\<close>

theorem score_filter_monotone:
  fixes ms :: "'s::{zero,one,minus,linorder}"
  assumes "\<And>b m m' :: 's. m \<le> m' \<Longrightarrow> b - m' \<le> b - m"
  shows "(rm \<le> rm' \<longrightarrow>
            length (DocumentScoreFilter_run ms rm docs) \<le>
            length (DocumentScoreFilter_run ms rm' docs))
       \<and> (ms \<le> ms' \<longrightarrow>
            length (DocumentScoreFilter_run ms' rm docs) \<le>
            length (DocumentScoreFilter_run ms rm docs))"
proof (cases docs)
  case Nil
  then show ?thesis by (simp add: score_filter_eq)
next
  case (Cons first rest)
  define best where "best = (case score first of Some s \<Rightarrow> s | None \<Rightarrow> 1)"
  have run: "DocumentScoreFilter_run a b docs =
             filter (\<lambda>d. a \<le> doc_score d \<and> best - b \<le> doc_score d) docs" for a b
    by (simp add: score_filter_eq Cons best_def)
  have count: "length (filter P docs) \<le> length (filter Q docs)"
    if "\<And>d. P d \<Longrightarrow> Q d" for P Q :: "'s Document \<Rightarrow> bool"
    using that by (induction docs) auto
  have "length (DocumentScoreFilter_run ms rm docs) \<le>
        length (DocumentScoreFilter_run ms rm' docs)" if "rm \<le> rm'"
    unfolding run using assms [OF that, of best] by (intro count) auto
  moreover have "length (DocumentScoreFilter_run ms' rm docs) \<le>
        length (DocumentScoreFilter_run ms rm docs)" if "ms \<le> ms'"
    unfolding run using that by (intro count) auto
  ultimately show ?thesis by blast
qed

theorem score_filter_monotone_witness:
  "(1 / 4 :: rat) \<le> 1 / 2
   \<and> length (DocumentScoreFilter_run (1 / 4) (1 / 4 :: rat)
       [candidate ''A'' (9 / 10), candidate ''B'' (7 / 10), candidate ''C'' (5 / 10)]) = 2
   \<and> length (DocumentScoreFilter_run (1 / 4) (1 / 2 :: rat)
       [candidate ''A'' (9 / 10), candidate ''B'' (7 / 10), candidate ''C'' (5 / 10)]) = 3
   \<and> length (DocumentScoreFilter_run (1 / 2) (1 / 4 :: rat)
       [candidate ''A'' (9 / 10), candidate ''B'' (7 / 10), candidate ''C'' (5 / 10)]) \<le>
     length (DocumentScoreFilter_run (1 / 4) (1 / 4 :: rat)
       [candidate ''A'' (9 / 10), candidate ''B'' (7 / 10), candidate ''C'' (5 / 10)])"
proof -
  have sub: "\<And>b m m' :: rat. m \<le> m' \<Longrightarrow> b - m' \<le> b - m" by simp
  have le: "(1 / 4 :: rat) \<le> 1 / 2" by simp
  from score_filter_monotone [OF sub, of "1 / 4" "1 / 2" "1 / 4"
      "[candidate ''A'' (9 / 10), candidate ''B'' (7 / 10), candidate ''C'' (5 / 10)]" "1 / 4"]
    le
  show ?thesis by (simp add: score_filter_eq candidate_def doc_score_def)
qed

section \<open>Background processing\<close>

lemma on_exception_logged:
  "logged (on_exception clock w i e) = logged w @ [(ERROR, Error_processing i e)]"
  by (cases "e = []")
     (simp_all add: on_exception_def Let_def update_status_plain update_status_error
       is_truthy_def)

lemma on_exception_select:
  assumes "select_document (db w) i = Some r"
  shows "select_document (db (on_exception clock w i e)) i =
         Some (if e = [] then r\<lparr>status := FAILED, updated_at := clock (ticks w)\<rparr>
               else r\<lparr>status := FAILED, processing_error := Some (take 500 e),
                      last_error := Some (take 500 e), updated_at := clock (ticks w),
                      retry_count := retry_count r + 1,
                      next_attempt_at :=
                        Some (clock (Suc (ticks w)) + delay_seconds (retry_count r))\<rparr>)"
proof (cases "e = []")
  case True
  then show ?thesis
    by (simp add: on_exception_def Let_def update_status_plain is_truthy_def
        select_update_where_id assms)
next
  case False
  have tk: "(if 500 < length e then take 500 e else e) = take 500 e" by simp
  from False have tr: "is_truthy (Some (take 500 e))" by (simp add: is_truthy_def)
  show ?thesis using False
    by (simp add: on_exception_def Let_def tk update_status_error [OF tr]
        select_update_where_id assms del: take_all_iff)
qed

lemma haystack_document_status:
  "haystack_document (f\<lparr>row := (row f)\<lparr>status := st, updated_at := t\<rparr>\<rparr>) = haystack_document f"
  by (simp add: haystack_document_def)

lemma process_missing:
  assumes "select_document (db w) i = None"
  shows "db (process_document_background clock gp w i) = db w"
    and "logged (process_document_background clock gp w i) =
         logged w @ [(INFO, Starting_background_processing i),
                     (INFO, Updated_status_to_processing i),
                     (ERROR, Error_processing i (''Document '' @ i @ '' not found in database''))]"
proof -
  let ?w1 = "logger INFO (Starting_background_processing i) w"
  let ?w3 = "logger INFO (Updated_status_to_processing i) (update_status clock ?w1 i PROCESSING None)"
  have d3: "db ?w3 = db w" using assms by (simp add: update_status_missing)
  have "get_by_id (update_status clock ?w1 i PROCESSING None) i = None"
    using assms by (simp add: get_by_id_update_status get_by_id_None)
  then have p: "process_document_background clock gp w i =
      on_exception clock ?w3 i (''Document '' @ i @ '' not found in database'')"
    by (simp add: process_document_background_def Let_def)
  show "db (process_document_background clock gp w i) = db w"
    unfolding p on_exception_def Let_def using assms d3
    by (simp add: update_status_missing)
  show "logged (process_document_background clock gp w i) =
         logged w @ [(INFO, Starting_background_processing i),
                     (INFO, Updated_status_to_processing i),
                     (ERROR, Error_processing i (''Document '' @ i @ '' not found in database''))]"
    unfolding p on_exception_logged by (simp add: update_status_None_fields)
qed

lemma process_failure:
  assumes "get_by_id w i = Some f" and "gp = Inr run" and "run (haystack_document f) = Inl e"
  shows "select_document (db (process_document_background clock gp w i)) i =
         Some (if e = [] then (row f)\<lparr>status := FAILED, updated_at := clock (Suc (ticks w))\<rparr>
               else (row f)\<lparr>status := FAILED, processing_error := Some (take 500 e),
                      last_error := Some (take 500 e), updated_at := clock (Suc (ticks w)),
                      retry_count := retry_count (row f) + 1,
                      next_attempt_at :=
                        Some (clock (Suc (Suc (ticks w))) + delay_seconds (retry_count (row f)))\<rparr>)"
proof -
  let ?w1 = "logger INFO (Starting_background_processing i) w"
  let ?w3 = "logger INFO (Updated_status_to_processing i) (update_status clock ?w1 i PROCESSING None)"
  let ?w4 = "logger INFO (Running_indexing_pipeline i) ?w3"
  have p: "process_document_background clock gp w i = on_exception clock ?w4 i e"
    by (simp add: process_document_background_def Let_def get_by_id_update_status assms
        haystack_document_status)
  have sel: "select_document (db ?w4) i = Some ((row f)\<lparr>status := PROCESSING, updated_at := clock (ticks w)\<rparr>)"
    by (simp add: update_status_None_fields get_by_id_Some [OF assms(1)])
  have t: "ticks ?w4 = Suc (ticks w)"
    by (simp add: update_status_None_fields)
  show ?thesis unfolding p on_exception_select [OF sel] t by simp
qed

lemma process_success:
  assumes "get_by_id w i = Some f" and "gp = Inr run" and "run (haystack_document f) = Inr res"
  shows "select_document (db (process_document_background clock gp w i)) i =
         Some ((row f)\<lparr>status := COMPLETED, updated_at := clock (Suc (ticks w))\<rparr>)"
    and "logged (process_document_background clock gp w i) =
         logged w @ [(INFO, Starting_background_processing i),
                     (INFO, Updated_status_to_processing i),
                     (INFO, Running_indexing_pipeline i)] @
         (case res of Some n \<Rightarrow> [(INFO, Successfully_indexed n i)] | None \<Rightarrow> []) @
         [(INFO, Completed_processing i)]"
proof -
  let ?w1 = "logger INFO (Starting_background_processing i) w"
  let ?w3 = "logger INFO (Updated_status_to_processing i) (update_status clock ?w1 i PROCESSING None)"
  let ?w4 = "logger INFO (Running_indexing_pipeline i) ?w3"
  let ?w5 = "case res of Some n \<Rightarrow> logger INFO (Successfully_indexed n i) ?w4 | None \<Rightarrow> ?w4"
  have p: "process_document_background clock gp w i =
           logger INFO (Completed_processing i) (update_status clock ?w5 i COMPLETED None)"
    by (simp add: process_document_background_def Let_def get_by_id_update_status assms
        haystack_document_status)
  have sel: "select_document (db ?w5) i = Some ((row f)\<lparr>status := PROCESSING, updated_at := clock (ticks w)\<rparr>)"
    by (cases res) (simp_all add: update_status_None_fields get_by_id_Some [OF assms(1)])
  have t: "ticks ?w5 = Suc (ticks w)"
    by (cases res) (simp_all add: update_status_None_fields)
  have l: "logged ?w5 = logged w @ [(INFO, Starting_background_processing i),
                     (INFO, Updated_status_to_processing i),
                     (INFO, Running_indexing_pipeline i)] @
         (case res of Some n \<Rightarrow> [(INFO, Successfully_indexed n i)] | None \<Rightarrow> [])"
    by (cases res) (simp_all add: update_status_None_fields)
  show "select_document (db (process_document_background clock gp w i)) i =
         Some ((row f)\<lparr>status := COMPLETED, updated_at := clock (Suc (ticks w))\<rparr>)"
    unfolding p by (simp add: update_status_None_fields sel t)
  show "logged (process_document_background clock gp w i) =
         logged w @ [(INFO, Starting_background_processing i),
                     (INFO, Updated_status_to_processing i),
                     (INFO, Running_indexing_pipeline i)] @
         (case res of Some n \<Rightarrow> [(INFO, Successfully_indexed n i)] | None \<Rightarrow> []) @
         [(INFO, Completed_processing i)]"
    unfolding p by (simp add: update_status_None_fields l)
qed

lemma retry_document_success:
  assumes "get_by_id w (doc_id doc) = Some f" and "gp = Inr run"
    and "run (haystack_document f) = Inr res"
  shows "select_document (db (retry_document clock gp doc w)) (doc_id doc) =
         Some ((row f)\<lparr>status := COMPLETED, updated_at := clock (Suc (Suc (ticks w)))\<rparr>)"
proof -
  let ?i = "doc_id doc"
  let ?w2 = "update_status clock
               (logger INFO (Requeuing_document ?i (retry_count doc + 1)) w) ?i PENDING None"
  let ?f = "f\<lparr>row := (row f)\<lparr>status := PENDING, updated_at := clock (ticks w)\<rparr>\<rparr>"
  have fetch: "get_by_id ?w2 ?i = Some ?f"
    by (simp add: get_by_id_update_status assms(1))
  have run: "run (haystack_document ?f) = Inr res"
    by (simp add: haystack_document_status assms(3))
  have t: "ticks ?w2 = Suc (ticks w)"
    by (simp add: update_status_None_fields)
  have "retry_document clock gp doc w = process_document_background clock gp ?w2 ?i"
    by (simp add: retry_document_def Let_def)
  then show ?thesis
    using process_success(1) [OF fetch assms(2) run, of clock] by (simp add: t)
qed

lemma sample_fetch:
  "get_by_id sample_world ''d3'' =
     Some \<lparr>row = sample_completed, tags = [], linked_document_ids = []\<rparr>"
  "get_by_id sample_world ''d1'' =
     Some \<lparr>row = sample_document, tags = [''greeting''], linked_document_ids = []\<rparr>"
  "select_document (db sample_world) ''zz'' = None"
  "select_document (db sample_world) ''d3'' = Some sample_completed"
  "ticks sample_world = 0"
  "logged sample_world = []"
  by (simp_all add: get_by_id_def select_document_def sample_world_def sample_document_def
      sample_exhausted_def sample_completed_def sample_waiting_def)

lemma process_in_stages:
  "process_document_background clock gp w i =
   fetch_and_index clock gp (claim_processing clock w i) i"
  by (simp add: process_document_background_def fetch_and_index_def claim_processing_def
      Let_def)

lemma retry_in_stages:
  "retry_document clock gp doc w =
   process_document_background clock gp (reset_to_pending clock doc w) (doc_id doc)"
  by (simp add: retry_document_def reset_to_pending_def Let_def)

lemma claim_processing_select:
  "select_document (db (claim_processing clock w i)) j =
   map_option (\<lambda>r. if j = i then r\<lparr>status := PROCESSING, updated_at := clock (ticks w)\<rparr> else r)
     (select_document (db w) j)"
  by (simp add: claim_processing_def Let_def update_status_None_fields cong: if_cong)

lemma reset_to_pending_select:
  "select_document (db (reset_to_pending clock doc w)) j =
   map_option
     (\<lambda>r. if j = doc_id doc then r\<lparr>status := PENDING, updated_at := clock (ticks w)\<rparr> else r)
     (select_document (db w) j)"
  by (simp add: reset_to_pending_def Let_def update_status_None_fields cong: if_cong)

lemma retry_loop_foldl:
  "retry_loop clock gp ds w = foldl (\<lambda>w d. retry_document clock gp d w) w ds"
  by (induction ds arbitrary: w) simp_all

lemma query_logger:
  "get_failed_documents_for_retry clock (logger l m w) mr =
   (fst (get_failed_documents_for_retry clock w mr), (logger l m w)\<lparr>ticks := Suc (ticks w)\<rparr>)"
  by (simp add: get_failed_documents_for_retry_def utcnow_def)

lemma sweep_in_stages:
  "retry_failed_documents_task clock gp w =
     (let failed_docs = fst (get_failed_documents_for_retry clock w 3);
          w1 = (logger INFO Starting_retry_cycle w)\<lparr>ticks := Suc (ticks w)\<rparr>
      in if failed_docs = [] then logger INFO No_failed_documents_found w1
         else logger INFO (Completed_retry_cycle (length failed_docs))
                (foldl (\<lambda>w d. retry_document clock gp d w)
                   (logger INFO (Found_documents_to_retry (length failed_docs)) w1)
                   failed_docs))"
  by (simp add: retry_failed_documents_task_def query_logger retry_loop_foldl Let_def)

lemma update_where_id_twice:
  assumes "\<And>r. doc_id (f r) = doc_id r"
  shows "update_where_id i g (update_where_id i f d) = update_where_id i (\<lambda>r. g (f r)) d"
  using assms by (simp add: update_where_id_def)

lemma process_success_db:
  assumes "select_document (db w) i \<noteq> None"
  shows "db (process_document_background clock (Inr (\<lambda>h. Inr (written h))) w i) =
         update_where_id i (\<lambda>r. r\<lparr>status := COMPLETED, updated_at := clock (Suc (ticks w))\<rparr>)
           (db w)"
proof -
  from assms obtain f where f: "get_by_id w i = Some f"
    by (auto simp: get_by_id_def)
  let ?w1 = "logger INFO (Starting_background_processing i) w"
  let ?w3 = "logger INFO (Updated_status_to_processing i) (update_status clock ?w1 i PROCESSING None)"
  let ?w4 = "logger INFO (Running_indexing_pipeline i) ?w3"
  let ?res = "written (haystack_document f)"
  let ?w5 = "case ?res of Some n \<Rightarrow> logger INFO (Successfully_indexed n i) ?w4 | None \<Rightarrow> ?w4"
  have p: "process_document_background clock (Inr (\<lambda>h. Inr (written h))) w i =
           logger INFO (Completed_processing i) (update_status clock ?w5 i COMPLETED None)"
    by (simp add: process_document_background_def Let_def get_by_id_update_status f
        haystack_document_status)
  have d5: "db ?w5 = update_where_id i
              (\<lambda>r. r\<lparr>status := PROCESSING, updated_at := clock (ticks w)\<rparr>) (db w)"
    by (cases ?res) (simp_all add: update_status_plain is_truthy_def)
  have t5: "ticks ?w5 = Suc (ticks w)"
    by (cases ?res) (simp_all add: update_status_None_fields)
  show ?thesis
    unfolding p by (simp add: update_status_plain is_truthy_def d5 t5 update_where_id_twice)
qed

lemma retry_document_db:
  assumes "select_document (db w) (doc_id doc) \<noteq> None"
  shows "db (retry_document clock (Inr (\<lambda>h. Inr (written h))) doc w) =
         update_where_id (doc_id doc)
           (\<lambda>r. r\<lparr>status := COMPLETED, updated_at := clock (Suc (Suc (ticks w)))\<rparr>) (db w)"
proof -
  let ?w2 = "reset_to_pending clock doc w"
  have s: "select_document (db ?w2) (doc_id doc) \<noteq> None"
    using assms by (simp add: reset_to_pending_select)
  have d: "db ?w2 = update_where_id (doc_id doc)
             (\<lambda>r. r\<lparr>status := PENDING, updated_at := clock (ticks w)\<rparr>) (db w)"
    by (simp add: reset_to_pending_def Let_def update_status_plain is_truthy_def)
  have t: "ticks ?w2 = Suc (ticks w)"
    by (simp add: reset_to_pending_def Let_def update_status_None_fields)
  show ?thesis
    unfolding retry_in_stages process_success_db [OF s]
    by (simp add: d t update_where_id_twice)
qed

lemma retry_loop_completes:
  assumes "\<forall>d \<in> set ds. select_document (db w) (doc_id d) \<noteq> None"
  shows "map (\<lambda>r. r\<lparr>updated_at := 0\<rparr>)
           (documents (db (retry_loop clock (Inr (\<lambda>h. Inr (written h))) ds w))) =
         map (\<lambda>r. (if doc_id r \<in> doc_id ` set ds then r\<lparr>status := COMPLETED\<rparr> else r)
                   \<lparr>updated_at := 0\<rparr>)
           (documents (db w))"
  using assms
proof (induction ds arbitrary: w)
  case Nil
  then show ?case by simp
next
  case (Cons d ds)
  let ?gp = "Inr (\<lambda>h. Inr (written h)) :: string + indexing_pipeline"
  let ?w' = "retry_document clock ?gp d w"
  have here: "select_document (db w) (doc_id d) \<noteq> None" using Cons.prems by simp
  have db': "db ?w' = update_where_id (doc_id d)
               (\<lambda>r. r\<lparr>status := COMPLETED, updated_at := clock (Suc (Suc (ticks w)))\<rparr>) (db w)"
    by (rule retry_document_db [OF here])
  have "\<forall>x \<in> set ds. select_document (db ?w') (doc_id x) \<noteq> None"
    using Cons.prems by (simp add: db' select_update_where_id)
  from Cons.IH [OF this] show ?case
    by (simp add: db' update_where_id_def comp_def)
qed


lemma query_subset:
  "set (fst (get_failed_documents_for_retry clock w mr)) \<subseteq> set (documents (db w))"
  using set_take_subset [of 50]
  by (fastforce simp: get_failed_documents_for_retry_def utcnow_def)

lemma stored_row_selected:
  "d \<in> set (documents (db w)) \<Longrightarrow> select_document (db w) (doc_id d) \<noteq> None"
  by (auto simp: select_document_def find_None_iff)

lemma sweep_completes:
  "map (\<lambda>r. r\<lparr>updated_at := 0\<rparr>)
     (documents (db (retry_failed_documents_task clock (Inr (\<lambda>h. Inr (written h))) w))) =
   map (\<lambda>r. (if doc_id r \<in> doc_id ` set (fst (get_failed_documents_for_retry clock w 3))
              then r\<lparr>status := COMPLETED\<rparr> else r)\<lparr>updated_at := 0\<rparr>)
     (documents (db w))"
proof -
  let ?ds = "fst (get_failed_documents_for_retry clock w 3)"
  let ?w1 = "(logger INFO Starting_retry_cycle w)\<lparr>ticks := Suc (ticks w)\<rparr>"
  let ?w2 = "logger INFO (Found_documents_to_retry (length ?ds)) ?w1"
  have present: "\<forall>d \<in> set ?ds. select_document (db ?w2) (doc_id d) \<noteq> None"
    using query_subset [of clock w 3] stored_row_selected [of _ w] by auto
  show ?thesis
  proof (cases "?ds = []")
    case True
    then show ?thesis
      by (simp add: retry_failed_documents_task_def query_logger Let_def)
  next
    case False
    then have "db (retry_failed_documents_task clock (Inr (\<lambda>h. Inr (written h))) w) =
               db (retry_loop clock (Inr (\<lambda>h. Inr (written h))) ?ds ?w2)"
      by (simp add: retry_failed_documents_task_def query_logger Let_def)
    then show ?thesis
      using retry_loop_completes [OF present, of clock written] by simp
  qed
qed

lemma sample_rows:
  "documents (db sample_world) =
     [sample_completed, sample_waiting, sample_exhausted, sample_document]"
  "doc_id sample_completed = ''d3''" "doc_id sample_waiting = ''d4''"
  "doc_id sample_exhausted = ''d2''" "doc_id sample_document = ''d1''"
  "fst (get_failed_documents_for_retry sample_clock sample_world 3) = [sample_document]"
  "select_document (db sample_world) ''d1'' = Some sample_document"
  by (simp_all add: get_failed_documents_for_retry_def utcnow_def retryable_def
      select_document_def sample_world_def sample_document_def sample_exhausted_def
      sample_completed_def sample_waiting_def sample_clock_def)

text \<open>
  One sweep over the sample data with a pipeline that succeeds: of the three failed
  documents only \<open>d1\<close> qualifies (\<open>d2\<close> has used its retries, \<open>d4\<close> is not due), and it
  ends \<open>completed\<close> with its retry history kept.
\<close>

lemma sample_sweep:
  "map (\<lambda>r. (doc_id r, status r, retry_count r, updated_at r))
     (documents (db (retry_failed_documents_task sample_clock (Inr (\<lambda>d. Inr (Some 1)))
        sample_world))) =
   [(''d3'', COMPLETED, 0, 40), (''d4'', FAILED, 1, 40), (''d2'', FAILED, 3, 40),
    (''d1'', COMPLETED, 2, 1003)]"
  by (simp add: retry_failed_documents_task_def get_failed_documents_for_retry_def utcnow_def
      retryable_def retry_document_def process_document_background_def on_exception_def
      update_status_def update_where_id_def get_by_id_def select_document_def logger_def
      is_truthy_def haystack_document_def Let_def
      sample_world_def sample_document_def sample_exhausted_def sample_completed_def
      sample_waiting_def sample_clock_def)

text \<open>
  Claim C1 does not hold of the code when the error text is empty. \<open>update_status\<close>
  tests the message for truth, so for \<open>""\<close>, the text of an exception raised without
  arguments, which \<open>process_document_background\<close> passes on as it is, it runs the plain
  \<open>UPDATE\<close>: the document becomes \<open>failed\<close>, but \<open>retry_count\<close> is not incremented and
  \<open>next_attempt_at\<close> is not set. Here \<open>d1\<close> fails in the pipeline and keeps
  \<open>retry_count = 2\<close> and \<open>next_attempt_at = 100\<close>, where the claim gives 3 and
  \<open>now + 240\<close>; \<open>d3\<close>, set to \<open>failed\<close> directly, keeps 0 and no next attempt.
\<close>

theorem empty_error_skips_backoff:
  "select_document (db sample_world) ''d1'' = Some sample_document
   \<and> retry_count sample_document = 2 \<and> next_attempt_at sample_document = Some 100
   \<and> select_document
       (db (process_document_background sample_clock (Inr (\<lambda>d. Inl [])) sample_world
             ''d1'')) ''d1'' =
      Some (sample_document\<lparr>status := FAILED, updated_at := 1001\<rparr>)
   \<and> select_document (db sample_world) ''d3'' = Some sample_completed
   \<and> retry_count sample_completed = 0 \<and> next_attempt_at sample_completed = None
   \<and> select_document
       (db (update_status sample_clock sample_world ''d3'' FAILED (Some []))) ''d3'' =
      Some (sample_completed\<lparr>status := FAILED, updated_at := 1000\<rparr>)"
proof -
  have "retry_count sample_document = 2" "next_attempt_at sample_document = Some 100"
    "retry_count sample_completed = 0" "next_attempt_at sample_completed = None"
    by (simp_all add: sample_document_def sample_completed_def)
  moreover from process_failure
    [OF sample_fetch(2) refl, of "\<lambda>d. Inl []" "[]" sample_clock]
  have "select_document
       (db (process_document_background sample_clock (Inr (\<lambda>d. Inl [])) sample_world
             ''d1'')) ''d1'' =
      Some (sample_document\<lparr>status := FAILED, updated_at := 1001\<rparr>)"
    by (simp add: sample_fetch sample_clock_def)
  moreover have "select_document
       (db (update_status sample_clock sample_world ''d3'' FAILED (Some []))) ''d3'' =
      Some (sample_completed\<lparr>status := FAILED, updated_at := 1000\<rparr>)"
    by (simp add: update_status_plain is_truthy_def select_update_where_id sample_fetch
        sample_clock_def)
  ultimately show ?thesis by (simp add: sample_fetch sample_rows)
qed

text \<open>
  Claim C7. When the record is missing at the time \<open>process_document_background\<close> fetches
  it, the database is left as it was (no record becomes \<open>failed\<close>, none gets a retry
  scheduled) and the outcome is one record in the log at error level. When the record is
  there and the indexing pipeline raises, the record becomes \<open>failed\<close>; with a non-empty
  message it also gets the message (cut to 500 characters), the incremented \<open>retry_count\<close>
  and the next attempt scheduled by the backoff.
\<close>

theorem missing_record_no_transition:
  "(select_document (db w) i = None \<longrightarrow>
      db (process_document_background clock gp w i) = db w
      \<and> logged (process_document_background clock gp w i) =
          logged w @ [(INFO, Starting_background_processing i),
                      (INFO, Updated_status_to_processing i),
                      (ERROR, Error_processing i
                                (''Document '' @ i @ '' not found in database''))])
   \<and> (get_by_id w i = Some f \<and> gp = Inr run \<and> run (haystack_document f) = Inl e \<longrightarrow>
        select_document (db (process_document_background clock gp w i)) i =
        Some (if e = []
              then (row f)\<lparr>status := FAILED, updated_at := clock (Suc (ticks w))\<rparr>
              else (row f)\<lparr>status := FAILED, processing_error := Some (take 500 e),
                     last_error := Some (take 500 e), updated_at := clock (Suc (ticks w)),
                     retry_count := retry_count (row f) + 1,
                     next_attempt_at :=
                       Some (clock (Suc (Suc (ticks w))) +
                             delay_seconds (retry_count (row f)))\<rparr>))"
  using process_missing [of w i clock gp] process_failure [of w i f gp run e clock]
  by blast

theorem missing_record_no_transition_witness:
  "select_document (db sample_world) ''zz'' = None
   \<and> db (process_document_background sample_clock (Inr (\<lambda>d. Inr (Some 1))) sample_world ''zz'')
       = db sample_world
   \<and> logged (process_document_background sample_clock (Inr (\<lambda>d. Inr (Some 1))) sample_world
       ''zz'') =
      [(INFO, Starting_background_processing ''zz''),
       (INFO, Updated_status_to_processing ''zz''),
       (ERROR, Error_processing ''zz'' ''Document zz not found in database'')]
   \<and> select_document
       (db (process_document_background sample_clock (Inr (\<lambda>d. Inl ''embedding failed''))
             sample_world ''d1'')) ''d1'' =
      Some (sample_document\<lparr>status := FAILED, processing_error := Some ''embedding failed'',
              last_error := Some ''embedding failed'', updated_at := 1001,
              retry_count := 3, next_attempt_at := Some 1242\<rparr>)"
proof -
  have d: "delay_seconds 2 = 240" by (simp add: delay_seconds_def)
  have rc: "retry_count sample_document = 2" by (simp add: sample_document_def)
  from missing_record_no_transition
         [of sample_world "''zz''" sample_clock "Inr (\<lambda>d. Inr (Some 1))"]
       missing_record_no_transition
         [of sample_world "''d1''" sample_clock "Inr (\<lambda>d. Inl ''embedding failed'')"
             "\<lparr>row = sample_document, tags = [''greeting''], linked_document_ids = []\<rparr>"
             "\<lambda>d. Inl ''embedding failed''" "''embedding failed''"]
  show ?thesis
    by (simp add: sample_fetch d rc sample_clock_def)
qed

text \<open>
  Claim C6, as amended. \<open>process_document_background\<close> is \<open>claim_processing\<close> followed by
  \<open>fetch_and_index\<close>, and \<open>claim_processing\<close> writes the status \<open>processing\<close>
  whatever the status was: a stored document in any status is processed when triggered.
  If the pipeline succeeds it ends \<open>completed\<close> and only records at info level are
  logged; if the pipeline raises with a non-empty message it ends \<open>failed\<close> with
  \<open>retry_count\<close> incremented and the next attempt scheduled, a failure the retry query
  will return. The retry sweep runs its query once and then, for each row the query
  returned, in order, \<open>retry_document\<close>: that takes the identifier from the row, writes
  \<open>pending\<close> over whatever status is stored, and calls \<open>process_document_background\<close>;
  the stored status is never read. With a pipeline that always succeeds, after the sweep
  the records the query returned are \<open>completed\<close> and nothing else but \<open>updated_at\<close>
  has changed in the table.
\<close>

theorem processing_ignores_status:
  "process_document_background clock gp w i =
     fetch_and_index clock gp (claim_processing clock w i) i
   \<and> retry_document clock gp doc w =
       process_document_background clock gp (reset_to_pending clock doc w) (doc_id doc)
   \<and> retry_failed_documents_task clock gp w =
       (let failed_docs = fst (get_failed_documents_for_retry clock w 3);
            w1 = (logger INFO Starting_retry_cycle w)\<lparr>ticks := Suc (ticks w)\<rparr>
        in if failed_docs = [] then logger INFO No_failed_documents_found w1
           else logger INFO (Completed_retry_cycle (length failed_docs))
                  (foldl (\<lambda>w d. retry_document clock gp d w)
                     (logger INFO (Found_documents_to_retry (length failed_docs)) w1)
                     failed_docs))
   \<and> (get_by_id w i = Some f \<and> gp = Inr run \<longrightarrow>
        select_document (db (claim_processing clock w i)) i =
          Some ((row f)\<lparr>status := PROCESSING, updated_at := clock (ticks w)\<rparr>)
        \<and> (run (haystack_document f) = Inr res \<longrightarrow>
             select_document (db (process_document_background clock gp w i)) i =
               Some ((row f)\<lparr>status := COMPLETED, updated_at := clock (Suc (ticks w))\<rparr>)
             \<and> logged (process_document_background clock gp w i) =
                 logged w @ [(INFO, Starting_background_processing i),
                             (INFO, Updated_status_to_processing i),
                             (INFO, Running_indexing_pipeline i)] @
                 (case res of Some n \<Rightarrow> [(INFO, Successfully_indexed n i)] | None \<Rightarrow> []) @
                 [(INFO, Completed_processing i)])
        \<and> (run (haystack_document f) = Inl e \<and> e \<noteq> [] \<longrightarrow>
             select_document (db (process_document_background clock gp w i)) i =
               Some ((row f)\<lparr>status := FAILED, processing_error := Some (take 500 e),
                       last_error := Some (take 500 e), updated_at := clock (Suc (ticks w)),
                       retry_count := retry_count (row f) + 1,
                       next_attempt_at :=
                         Some (clock (Suc (Suc (ticks w))) +
                               delay_seconds (retry_count (row f)))\<rparr>))
        \<and> (doc_id doc = i \<longrightarrow>
             select_document (db (reset_to_pending clock doc w)) i =
               Some ((row f)\<lparr>status := PENDING, updated_at := clock (ticks w)\<rparr>))
        \<and> (doc_id doc = i \<and> run (haystack_document f) = Inr res \<longrightarrow>
             select_document (db (retry_document clock gp doc w)) i =
               Some ((row f)\<lparr>status := COMPLETED,
                       updated_at := clock (Suc (Suc (ticks w)))\<rparr>)))
   \<and> (gp = Inr (\<lambda>h. Inr (written h)) \<longrightarrow>
        map (\<lambda>r. r\<lparr>updated_at := 0\<rparr>)
          (documents (db (retry_failed_documents_task clock gp w))) =
        map (\<lambda>r. (if doc_id r \<in> doc_id ` set (fst (get_failed_documents_for_retry clock w 3))
                   then r\<lparr>status := COMPLETED\<rparr> else r)\<lparr>updated_at := 0\<rparr>)
          (documents (db w)))"
proof -
  have stages: "process_document_background clock gp w i =
      fetch_and_index clock gp (claim_processing clock w i) i"
    "retry_document clock gp doc w =
       process_document_background clock gp (reset_to_pending clock doc w) (doc_id doc)"
    by (rule process_in_stages, rule retry_in_stages)
  have sweep: "gp = Inr (\<lambda>h. Inr (written h)) \<longrightarrow>
        map (\<lambda>r. r\<lparr>updated_at := 0\<rparr>)
          (documents (db (retry_failed_documents_task clock gp w))) =
        map (\<lambda>r. (if doc_id r \<in> doc_id ` set (fst (get_failed_documents_for_retry clock w 3))
                   then r\<lparr>status := COMPLETED\<rparr> else r)\<lparr>updated_at := 0\<rparr>)
          (documents (db w))"
    using sweep_completes [of clock written w] by simp
  have stored: ?thesis if f: "get_by_id w i = Some f" and gp: "gp = Inr run"
  proof -
    have sel: "select_document (db w) i = Some (row f)" by (rule get_by_id_Some [OF f])
    have 1: "select_document (db (claim_processing clock w i)) i =
          Some ((row f)\<lparr>status := PROCESSING, updated_at := clock (ticks w)\<rparr>)"
      by (simp add: claim_processing_select sel)
    have 2: "select_document (db (process_document_background clock gp w i)) i =
               Some ((row f)\<lparr>status := COMPLETED, updated_at := clock (Suc (ticks w))\<rparr>)
             \<and> logged (process_document_background clock gp w i) =
                 logged w @ [(INFO, Starting_background_processing i),
                             (INFO, Updated_status_to_processing i),
                             (INFO, Running_indexing_pipeline i)] @
                 (case res of Some n \<Rightarrow> [(INFO, Successfully_indexed n i)] | None \<Rightarrow> []) @
                 [(INFO, Completed_processing i)]"
      if "run (haystack_document f) = Inr res"
      using process_success [OF f gp that, of clock] by simp
    have 3: "select_document (db (process_document_background clock gp w i)) i =
               Some ((row f)\<lparr>status := FAILED, processing_error := Some (take 500 e),
                       last_error := Some (take 500 e), updated_at := clock (Suc (ticks w)),
                       retry_count := retry_count (row f) + 1,
                       next_attempt_at :=
                         Some (clock (Suc (Suc (ticks w))) +
                               delay_seconds (retry_count (row f)))\<rparr>)"
      if "run (haystack_document f) = Inl e \<and> e \<noteq> []"
      using process_failure [OF f gp, of e clock] that by simp
    have 4: "select_document (db (reset_to_pending clock doc w)) i =
               Some ((row f)\<lparr>status := PENDING, updated_at := clock (ticks w)\<rparr>)"
      if "doc_id doc = i"
      using that by (simp add: reset_to_pending_select sel)
    have 5: "select_document (db (retry_document clock gp doc w)) i =
               Some ((row f)\<lparr>status := COMPLETED,
                       updated_at := clock (Suc (Suc (ticks w)))\<rparr>)"
      if "doc_id doc = i \<and> run (haystack_document f) = Inr res"
    proof -
      from that f have "get_by_id w (doc_id doc) = Some f" by simp
      from retry_document_success [OF this gp, of res clock] that show ?thesis by simp
    qed
    from stages sweep_in_stages [of clock gp w] sweep 1 2 3 4 5 show ?thesis by blast
  qed
  show ?thesis
  proof (cases "get_by_id w i = Some f \<and> gp = Inr run")
    case True
    then show ?thesis using stored by blast
  next
    case False
    with stages sweep_in_stages [of clock gp w] sweep show ?thesis by blast
  qed
qed


theorem processing_ignores_status_witness:
  "get_by_id sample_world ''d3'' =
     Some \<lparr>row = sample_completed, tags = [], linked_document_ids = []\<rparr>
   \<and> status sample_completed = COMPLETED
   \<and> select_document (db (claim_processing sample_clock sample_world ''d3'')) ''d3'' =
      Some (sample_completed\<lparr>status := PROCESSING, updated_at := 1000\<rparr>)
   \<and> select_document (db (reset_to_pending sample_clock sample_completed sample_world)) ''d3'' =
      Some (sample_completed\<lparr>status := PENDING, updated_at := 1000\<rparr>)
   \<and> select_document
       (db (process_document_background sample_clock (Inr (\<lambda>d. Inr (Some 1)))
             sample_world ''d3'')) ''d3'' =
      Some (sample_completed\<lparr>updated_at := 1001\<rparr>)
   \<and> select_document
       (db (retry_document sample_clock (Inr (\<lambda>d. Inr (Some 1)))
             sample_completed sample_world)) ''d3'' =
      Some (sample_completed\<lparr>updated_at := 1002\<rparr>)
   \<and> map (\<lambda>r. r\<lparr>updated_at := 0\<rparr>)
       (documents (db (retry_failed_documents_task sample_clock (Inr (\<lambda>d. Inr (Some 1)))
          sample_world))) =
      [sample_completed\<lparr>updated_at := 0\<rparr>, sample_waiting\<lparr>updated_at := 0\<rparr>,
       sample_exhausted\<lparr>updated_at := 0\<rparr>,
       sample_document\<lparr>status := COMPLETED, updated_at := 0\<rparr>]"
proof -
  have s: "status sample_completed = COMPLETED" by (simp add: sample_completed_def)
  from processing_ignores_status
    [where clock = sample_clock and gp = "Inr (\<lambda>d. Inr (Some 1))" and w = sample_world
       and i = "''d3''" and doc = sample_completed
       and f = "\<lparr>row = sample_completed, tags = [], linked_document_ids = []\<rparr>"
       and run = "\<lambda>d. Inr (Some 1)" and res = "Some 1" and e = "''boom''"
       and written = "\<lambda>d. Some 1", THEN conjunct2, THEN conjunct2, THEN conjunct2]
  show ?thesis
    by (simp add: sample_fetch sample_rows sample_clock_def s)
qed

text \<open>
  Claim C6 as the specification states it fails on a document whose status is
  \<open>completed\<close>: triggered with a pipeline that succeeds it is processed again, and nothing
  is logged at error level; triggered with a pipeline that raises, it becomes \<open>failed\<close>
  with a first retry scheduled, which the retry query accepts once that time has come.
\<close>

theorem completed_document_is_processed:
  "select_document (db sample_world) ''d3'' = Some sample_completed
   \<and> status sample_completed = COMPLETED
   \<and> logged (process_document_background sample_clock (Inr (\<lambda>d. Inr (Some 1)))
       sample_world ''d3'') =
      [(INFO, Starting_background_processing ''d3''),
       (INFO, Updated_status_to_processing ''d3''),
       (INFO, Running_indexing_pipeline ''d3''),
       (INFO, Successfully_indexed 1 ''d3''),
       (INFO, Completed_processing ''d3'')]
   \<and> select_document
       (db (process_document_background sample_clock (Inr (\<lambda>d. Inl ''embedding failed''))
             sample_world ''d3'')) ''d3'' =
      Some (sample_completed\<lparr>status := FAILED, processing_error := Some ''embedding failed'',
              last_error := Some ''embedding failed'', updated_at := 1001,
              retry_count := 1, next_attempt_at := Some 1062\<rparr>)
   \<and> retryable 3 1062
       (sample_completed\<lparr>status := FAILED, processing_error := Some ''embedding failed'',
          last_error := Some ''embedding failed'', updated_at := 1001,
          retry_count := 1, next_attempt_at := Some 1062\<rparr>)"
proof -
  have d: "delay_seconds 0 = 60" by (simp add: delay_seconds_def)
  have s: "status sample_completed = COMPLETED" "retry_count sample_completed = 0"
    by (simp_all add: sample_completed_def)
  from process_success(2)
         [OF sample_fetch(1) refl, of "\<lambda>d. Inr (Some 1)" "Some 1" sample_clock]
       process_failure
         [OF sample_fetch(1) refl, of "\<lambda>d. Inl ''embedding failed''" "''embedding failed''"
            sample_clock]
  show ?thesis
    by (simp add: d s sample_fetch sample_clock_def retryable_def)
qed

end
